theory Spec2Isabelle
  imports Complex_Main "HOL-Library.Word"
begin

unbundle bit_operations_syntax

section \<open>Shared vocabulary: bytes, Go errors, decimal formatting, panics\<close>

type_synonym byte = "8 word"

text \<open>
  A Go \<open>error\<close> value. \<open>Errorf m\<close> is \<open>fmt.Errorf\<close> with the finished message \<open>m\<close>;
  \<open>Errorv m e\<close> is \<open>fmt.Errorf(m + "%v", e)\<close>, the message \<open>m\<close> followed by the text of
  the wrapped error \<open>e\<close>. \<open>EOF\<close> is \<open>io.EOF\<close>; the next two are the sentinels of package
  \<open>filesystem\<close>. The last three are kinds of the spec's error taxonomy, for the code
  that is modelled from the spec: \<open>InvalidEntry reason\<close>, \<open>PartitionTooSmall written
  capacity\<close>, and the size mismatch that the test of \<open>WriteContents\<close> asks for when the
  producer ends before the partition is full. A nil error is \<open>None :: error option\<close>.
\<close>

datatype error =
    Errorf string
  | Errorv string error
  | EOF
  | ErrReadonlyFilesystem
  | ErrNotImplemented
  | InvalidEntry string
  | PartitionTooSmall nat nat
  | PartitionSizeMismatch nat nat

text \<open>
  What a call does: it returns, or the Go runtime panics (an index out of range, a nil
  dereference) and nothing is returned to the caller.
\<close>

datatype 'a outcome = Returns 'a | Panics string

text \<open>The verb \<open>%d\<close> of package \<open>fmt\<close>: decimal digits, a minus sign for negatives.\<close>

definition digit_char :: "nat \<Rightarrow> char" where
  "digit_char d = ''0123456789'' ! d"

function show_nat :: "nat \<Rightarrow> string" where
  "show_nat n = (if n < 10 then [digit_char n] else show_nat (n div 10) @ [digit_char (n mod 10)])"
  by pat_completeness auto
termination
  by (relation "measure id") auto

declare show_nat.simps [simp del]

definition show_int :: "int \<Rightarrow> string" where
  "show_int i = (if i < 0 then CHR ''-'' # show_nat (nat (- i)) else show_nat (nat i))"

text \<open>
  Indexing a slice \<open>xs[i]\<close> with a Go \<open>int\<close>: the runtime panics outside \<open>0 \<le> i < len(xs)\<close>.
\<close>

definition slice_index :: "'a list \<Rightarrow> int \<Rightarrow> 'a outcome" where
  "slice_index xs i =
     (if 0 \<le> i \<and> i < int (length xs) then Returns (xs ! nat i)
      else Panics (''runtime error: index out of range ['' @ show_int i @ '']''))"

section \<open>disk/disk.go: partition contents by public index\<close>

text \<open>
  Everything a call can touch outside its arguments (the bytes of the backing store, of the
  reader and of the writer) is a world \<open>'w\<close>, passed in and returned. A call that returns
  the world it was given, whatever the methods it holds would have done to it, has
  performed no I/O.

  \<open>backend.Storage\<close>: \<open>ReadAt n off\<close> is \<open>ReadAt(b, off)\<close> on a buffer of \<open>n\<close> bytes, giving
  the bytes read (their number is the count the call returns) and the error;
  \<open>Writable\<close> is the error of \<open>Writable()\<close>, nil when the store can be written.
\<close>

record 'w Storage =
  ReadAt :: "nat \<Rightarrow> int \<Rightarrow> 'w \<Rightarrow> (byte list \<times> error option) \<times> 'w"
  Writable :: "error option"

text \<open>
  The interface \<open>part.Partition\<close>, as \<open>disk.go\<close> uses it. \<open>ReadContents\<close> gives an
  \<open>int64\<close> count, \<open>WriteContents\<close> a \<open>uint64\<close> one; the backend and the reader or writer
  they are handed are parts of the world.
\<close>

record 'w Partition =
  GetSize :: int
  GetStart :: int
  ReadContents :: "'w \<Rightarrow> (int \<times> error option) \<times> 'w"
  WriteContents :: "'w \<Rightarrow> (64 word \<times> error option) \<times> 'w"

text \<open>The interface \<open>partition.Table\<close>: \<open>GetPartitions()\<close> is the slice of its partitions.\<close>

record 'w Table =
  GetPartitions :: "'w Partition list"

text \<open>The struct \<open>Disk\<close>; a nil \<open>Table\<close> is \<open>None\<close>.\<close>

record 'w Disk =
  Backend :: "'w Storage"
  Size :: int
  LogicalBlocksize :: int
  PhysicalBlocksize :: int
  Table :: "'w Table option"
  DefaultBlocks :: bool

definition WritePartitionContents ::
  "'w Disk \<Rightarrow> int \<Rightarrow> 'w \<Rightarrow> (int \<times> error option) outcome \<times> 'w" where
  "WritePartitionContents d part w =
     (case Writable (Backend d) of
        Some err \<Rightarrow> (Returns (- 1, Some err), w)
      | None \<Rightarrow>
         (case Table d of
            None \<Rightarrow> (Returns (- 1, Some (Errorf
              ''cannot write contents of a partition on a disk without a partition table'')), w)
          | Some t \<Rightarrow>
             if part < 0 then (Returns (- 1, Some (Errorf
               ''cannot write contents of a partition without specifying a partition'')), w)
             else
               let partitions = GetPartitions t in
               if part > int (length partitions) then (Returns (- 1, Some (Errorf
                 (''cannot write contents of partition '' @ show_int part @
                  '' which is greater than max partition '' @
                  show_int (int (length partitions))))), w)
               else
                 (case slice_index partitions (part - 1) of
                    Panics m \<Rightarrow> (Panics m, w)
                  | Returns p \<Rightarrow>
                      (case WriteContents p w of
                         ((written, err), w') \<Rightarrow> (Returns (sint written, err), w')))))"

definition ReadPartitionContents ::
  "'w Disk \<Rightarrow> int \<Rightarrow> 'w \<Rightarrow> (int \<times> error option) outcome \<times> 'w" where
  "ReadPartitionContents d part w =
     (case Table d of
        None \<Rightarrow> (Returns (- 1, Some (Errorf
          ''cannot read contents of a partition on a disk without a partition table'')), w)
      | Some t \<Rightarrow>
         if part < 0 then (Returns (- 1, Some (Errorf
           ''cannot read contents of a partition without specifying a partition'')), w)
         else
           let partitions = GetPartitions t in
           if part > int (length partitions) then (Returns (- 1, Some (Errorf
             (''cannot read contents of partition '' @ show_int part @
              '' which is greater than max partition '' @
              show_int (int (length partitions))))), w)
           else
             (case slice_index partitions (part - 1) of
                Panics m \<Rightarrow> (Panics m, w)
              | Returns p \<Rightarrow>
                  (case ReadContents p w of
                     (res, w') \<Rightarrow> (Returns res, w'))))"

text \<open>
  A disk for the examples: one partition, whose methods count their calls in a world of
  type \<open>nat\<close>.
\<close>

definition example_partition :: "nat Partition" where
  "example_partition =
     \<lparr>GetSize = 512, GetStart = 1048576,
      ReadContents = (\<lambda>w. ((512, None), Suc w)),
      WriteContents = (\<lambda>w. ((512, None), Suc w))\<rparr>"

definition example_disk :: "nat Disk" where
  "example_disk =
     \<lparr>Backend = \<lparr>ReadAt = (\<lambda>n off w. ((replicate n 0, None), Suc w)), Writable = None\<rparr>,
      Size = 10485760, LogicalBlocksize = 512, PhysicalBlocksize = 512,
      Table = Some \<lparr>GetPartitions = [example_partition]\<rparr>,
      DefaultBlocks = False\<rparr>"

section \<open>filesystem/ext4/cmp.go: Less and Compare on ordered types\<close>

text \<open>
  A value of a type of the constraint \<open>Ordered\<close>. The integer and string types are totally
  ordered: each of their values is \<open>Val v\<close>. The floating-point types have, besides their
  ordered values (the infinities among them; the two zeros compare equal under every
  operator and are one \<open>Val\<close>), the not-a-number values \<open>NaN\<close>. Go's operators \<open><\<close>, \<open>>\<close>
  report false and \<open>!=\<close> reports true as soon as an operand is a NaN.
\<close>

datatype 'a ordered = NaN | Val 'a

fun go_lt :: "'a::linorder ordered \<Rightarrow> 'a ordered \<Rightarrow> bool" where
  "go_lt (Val a) (Val b) = (a < b)"
| "go_lt _ _ = False"

fun go_gt :: "'a::linorder ordered \<Rightarrow> 'a ordered \<Rightarrow> bool" where
  "go_gt (Val a) (Val b) = (a > b)"
| "go_gt _ _ = False"

fun go_ne :: "'a::linorder ordered \<Rightarrow> 'a ordered \<Rightarrow> bool" where
  "go_ne (Val a) (Val b) = (a \<noteq> b)"
| "go_ne _ _ = True"

definition isNaN :: "'a::linorder ordered \<Rightarrow> bool" where
  "isNaN x = go_ne x x"

definition Less :: "'a::linorder ordered \<Rightarrow> 'a ordered \<Rightarrow> bool" where
  "Less x y = ((isNaN x \<and> \<not> isNaN y) \<or> go_lt x y)"

definition Compare :: "'a::linorder ordered \<Rightarrow> 'a ordered \<Rightarrow> int" where
  "Compare x y =
     (let xNaN = isNaN x; yNaN = isNaN y in
      if xNaN then (if yNaN then 0 else - 1)
      else if yNaN then 1
      else if go_lt x y then - 1
      else if go_gt x y then 1
      else 0)"

section \<open>Go's package path: Clean, Split, Dir, Base, Join\<close>

text \<open>
  \<open>OpenFile\<close> splits its path with the standard library's \<open>path.Dir\<close> and \<open>path.Base\<close>.
  They are written here after the library's own loops: \<open>Clean\<close> reads the path from the
  left into a buffer \<open>out\<close>, where \<open>dotdot\<close> is the length below which \<open>..\<close> cannot
  backtrack.
\<close>

function backtrack :: "string \<Rightarrow> nat \<Rightarrow> nat \<Rightarrow> nat" where
  "backtrack out dotdot w =
     (if w > dotdot \<and> out ! w \<noteq> CHR ''/'' then backtrack out dotdot (w - 1) else w)"
  by pat_completeness auto
termination
  by (relation "measure (\<lambda>(out, dotdot, w). w)") auto

declare backtrack.simps [simp del]

function clean_loop :: "bool \<Rightarrow> string \<Rightarrow> string \<Rightarrow> nat \<Rightarrow> string" where
  "clean_loop rooted [] out dotdot = out"
| "clean_loop rooted (c # cs) out dotdot =
     (if c = CHR ''/'' then clean_loop rooted cs out dotdot
      else if c = CHR ''.'' \<and> (cs = [] \<or> hd cs = CHR ''/'') then clean_loop rooted cs out dotdot
      else if c = CHR ''.'' \<and> hd cs = CHR ''.'' \<and> (tl cs = [] \<or> hd (tl cs) = CHR ''/'') then
        (if length out > dotdot then
           clean_loop rooted (tl cs) (take (backtrack out dotdot (length out - 1)) out) dotdot
         else if \<not> rooted then
           (let out' = (if length out > 0 then out @ ''/'' else out) @ ''..''
            in clean_loop rooted (tl cs) out' (length out'))
         else clean_loop rooted (tl cs) out dotdot)
      else
        (let out' = (if (rooted \<and> length out \<noteq> 1) \<or> (\<not> rooted \<and> length out \<noteq> 0)
                     then out @ ''/'' else out)
         in clean_loop rooted (dropWhile (\<lambda>x. x \<noteq> CHR ''/'') (c # cs))
              (out' @ takeWhile (\<lambda>x. x \<noteq> CHR ''/'') (c # cs)) dotdot))"
  by pat_completeness auto
termination
proof (relation "measure (\<lambda>(rooted, rest, out, dotdot). length rest)")
  fix rooted :: bool and c :: char and cs out :: string and dotdot :: nat and out' :: string
  assume "c \<noteq> CHR ''/''"
  then have "dropWhile (\<lambda>x. x \<noteq> CHR ''/'') (c # cs) = dropWhile (\<lambda>x. x \<noteq> CHR ''/'') cs"
    by simp
  moreover have "length (dropWhile (\<lambda>x. x \<noteq> CHR ''/'') cs) \<le> length cs"
    by (rule length_dropWhile_le)
  ultimately show "((rooted, dropWhile (\<lambda>x. x \<noteq> CHR ''/'') (c # cs),
        out' @ takeWhile (\<lambda>x. x \<noteq> CHR ''/'') (c # cs), dotdot), rooted, c # cs, out, dotdot)
      \<in> measure (\<lambda>(rooted, rest, out, dotdot). length rest)"
    by simp
qed (auto simp: less_Suc_eq_le intro: le_trans [OF diff_le_self])

declare clean_loop.simps [simp del]

definition path_Clean :: "string \<Rightarrow> string" where
  "path_Clean path =
     (if path = [] then ''.''
      else
        let rooted = (hd path = CHR ''/'');
            out = (if rooted then clean_loop rooted (tl path) ''/'' 1
                   else clean_loop rooted path [] 0)
        in if length out = 0 then ''.'' else out)"

definition path_Split :: "string \<Rightarrow> string \<times> string" where
  "path_Split path =
     (rev (dropWhile (\<lambda>x. x \<noteq> CHR ''/'') (rev path)),
      rev (takeWhile (\<lambda>x. x \<noteq> CHR ''/'') (rev path)))"

definition path_Dir :: "string \<Rightarrow> string" where
  "path_Dir path = path_Clean (fst (path_Split path))"

definition path_Base :: "string \<Rightarrow> string" where
  "path_Base path =
     (if path = [] then ''.''
      else
        let stripped = rev (dropWhile (\<lambda>x. x = CHR ''/'') (rev path));
            last_elem = rev (takeWhile (\<lambda>x. x \<noteq> CHR ''/'') (rev stripped))
        in if last_elem = [] then ''/'' else last_elem)"

text \<open>\<open>path.Join\<close> of two elements: empty elements are dropped, the rest joined and cleaned.\<close>

definition path_Join :: "string \<Rightarrow> string \<Rightarrow> string" where
  "path_Join a b =
     (if a = [] \<and> b = [] then []
      else if a = [] then path_Clean b
      else if b = [] then path_Clean a
      else path_Clean (a @ ''/'' @ b))"

section \<open>filesystem/squashfs/squashfs.go: the data\<close>

definition KB :: int where "KB = 1024"
definition MB :: int where "MB = 1024 * KB"

definition defaultBlockSize :: int where "defaultBlockSize = 128 * KB"
definition metadataBlockSize :: int where "metadataBlockSize = 8 * KB"
definition minBlocksize :: int where "minBlocksize = 4 * KB"
definition maxBlocksize :: int where "maxBlocksize = 1 * MB"
definition defaultCacheSize :: int where "defaultCacheSize = 128 * MB"

text \<open>
  The structs \<open>superblock\<close> and \<open>fragmentEntry\<close> are declared in files that are not at
  hand; they carry here the fields \<open>squashfs.go\<close> reads, at the widths its conversions
  show. Where two structs share a field name, the second one's fields get a prefix:
  \<open>fe_\<close> for \<open>fragmentEntry\<close>, \<open>fs_\<close> for the \<open>blocksize\<close> of \<open>FileSystem\<close>.
\<close>

record superblock =
  blocksize :: "32 word"
  compression :: "16 word"
  noXattrs :: bool
  xattrTableStart :: "64 word"
  rootInode :: "32 word \<times> 16 word"

record fragmentEntry =
  fe_start :: "64 word"
  fe_size :: "32 word"
  fe_compressed :: bool

text \<open>The interface \<open>Compressor\<close>, with the one method \<open>squashfs.go\<close> calls.\<close>

record 'w Compressor =
  decompress :: "byte list \<Rightarrow> 'w \<Rightarrow> (error + byte list) \<times> 'w"

text \<open>
  Modelled from the spec: the type \<open>lru\<close> and its method \<open>get\<close>, whose file is not among
  the sources. The cache holds blocks by disk position, most recently used first, at most
  \<open>maxBlocks\<close> of them; each block is its data and its size on disk.
\<close>

record lru =
  maxBlocks :: int
  blocks :: "(int \<times> byte list \<times> 16 word) list"

typedecl xAttrTable
typedecl inode

text \<open>The inode type tags that \<open>squashfs.go\<close> names; the others are numbered.\<close>

datatype inodeType = inodeBasicDirectory | inodeExtendedDirectory | inodeTypeOther "16 word"

record 'w FileSystem =
  workspace :: string
  superblock :: "superblock option"
  size :: int
  start :: int
  backend :: "'w Storage"
  fs_blocksize :: int
  compressor :: "'w Compressor option"
  fragments :: "fragmentEntry list"
  uidsGids :: "32 word list"
  xattrs :: "xAttrTable option"
  rootDir :: "inode option"
  cache :: "lru option"

text \<open>
  A \<open>directoryEntry\<close> as \<open>OpenFile\<close> sees it: \<open>Name()\<close> is its field \<open>name\<close> and \<open>IsDir()\<close>
  its field \<open>isSubdirectory\<close>. A \<open>filesystem.File\<close> is a handle, named by what it was
  opened from.
\<close>

record directoryEntry =
  name :: string
  isSubdirectory :: bool

datatype File = EntryFile string | OsFile string

text \<open>
  What \<open>squashfs.go\<close> calls and does not define, or defines on top of readers that are not
  at hand (\<open>readMetadata\<close>, \<open>readMetaBlock\<close>, the parsers): the walk of the directory table
  \<open>fs.readDirectory\<close>, the entry's \<open>Open\<close>, the loaders that \<open>Read\<close> runs in turn, and the
  calls into package \<open>os\<close>. Each may do I/O, so each takes and returns the world.
\<close>

record 'w deps =
  readDirectory :: "'w FileSystem \<Rightarrow> string \<Rightarrow> 'w \<Rightarrow> (error + directoryEntry list) \<times> 'w"
  entry_Open :: "directoryEntry \<Rightarrow> 'w \<Rightarrow> (error + File) \<times> 'w"
  os_OpenFile :: "string \<Rightarrow> 64 word \<Rightarrow> nat \<Rightarrow> 'w \<Rightarrow> (error + File) \<times> 'w"
  os_RemoveAll :: "string \<Rightarrow> 'w \<Rightarrow> error option \<times> 'w"
  os_MkdirTemp :: "string \<Rightarrow> string \<Rightarrow> 'w \<Rightarrow> (error + string) \<times> 'w"
  superblockSize :: nat
  parseSuperblock :: "byte list \<Rightarrow> error + superblock"
  newCompressor :: "16 word \<Rightarrow> error + 'w Compressor option"
  readFragmentTable ::
    "superblock \<Rightarrow> 'w Storage \<Rightarrow> 'w Compressor option \<Rightarrow> 'w
       \<Rightarrow> (error + fragmentEntry list) \<times> 'w"
  readXattrsTable ::
    "superblock \<Rightarrow> 'w Storage \<Rightarrow> 'w Compressor option \<Rightarrow> 'w
       \<Rightarrow> (error + xAttrTable option) \<times> 'w"
  readUidsGids ::
    "superblock \<Rightarrow> 'w Storage \<Rightarrow> 'w Compressor option \<Rightarrow> 'w
       \<Rightarrow> (error + 32 word list) \<times> 'w"
  getInode ::
    "'w FileSystem \<Rightarrow> 32 word \<Rightarrow> 16 word \<Rightarrow> inodeType \<Rightarrow> 'w \<Rightarrow> (error + inode) \<times> 'w"

text \<open>
  The open flags of package \<open>os\<close>, with their values on Linux; a Go \<open>int\<close> is 64 bits wide.
\<close>

definition O_RDONLY :: "64 word" where "O_RDONLY = 0"
definition O_WRONLY :: "64 word" where "O_WRONLY = 1"
definition O_RDWR :: "64 word" where "O_RDWR = 2"
definition O_CREATE :: "64 word" where "O_CREATE = 64"
definition O_EXCL :: "64 word" where "O_EXCL = 128"
definition O_TRUNC :: "64 word" where "O_TRUNC = 512"
definition O_APPEND :: "64 word" where "O_APPEND = 1024"

text \<open>The test \<open>err != nil && err != io.EOF\<close>: the error that counts, if any.\<close>

definition not_EOF :: "error option \<Rightarrow> error option" where
  "not_EOF err = (case err of None \<Rightarrow> None | Some e \<Rightarrow> if e = EOF then None else Some e)"

section \<open>filesystem/squashfs/squashfs.go: Close and OpenFile\<close>

definition Close :: "'w deps \<Rightarrow> 'w FileSystem \<Rightarrow> 'w \<Rightarrow> error option \<times> 'w" where
  "Close dp fs w =
     (if workspace fs \<noteq> [] then os_RemoveAll dp (workspace fs) w else (None, w))"

definition writeMode :: "64 word \<Rightarrow> bool" where
  "writeMode flag =
     (flag AND O_WRONLY \<noteq> 0 \<or> flag AND O_RDWR \<noteq> 0 \<or> flag AND O_APPEND \<noteq> 0 \<or>
      flag AND O_CREATE \<noteq> 0 \<or> flag AND O_TRUNC \<noteq> 0 \<or> flag AND O_EXCL \<noteq> 0)"

text \<open>
  The loop of \<open>OpenFile\<close> over the entries: an error at a directory of the name, the entry
  at the first other match, nothing when the entries run out.
\<close>

fun find_target :: "string \<Rightarrow> string \<Rightarrow> directoryEntry list \<Rightarrow> error + directoryEntry option" where
  "find_target p filename [] = Inr None"
| "find_target p filename (e # es) =
     (if name e = filename \<and> isSubdirectory e then
        Inl (Errorf (''cannot open directory '' @ p @ '' as file''))
      else if name e = filename then Inr (Some e)
      else find_target p filename es)"

definition OpenFile ::
  "'w deps \<Rightarrow> 'w FileSystem \<Rightarrow> string \<Rightarrow> 64 word \<Rightarrow> 'w \<Rightarrow> (error + File) \<times> 'w" where
  "OpenFile dp fs p flag w =
     (let dir = path_Dir p; filename = path_Base p in
      if dir = filename then (Inl (Errorf (''cannot open directory '' @ p @ '' as file'')), w)
      else if workspace fs = [] then
        (if writeMode flag then (Inl ErrReadonlyFilesystem, w)
         else
           (case readDirectory dp fs dir w of
              (Inl err, w1) \<Rightarrow>
                (Inl (Errorf (''could not read directory entries for '' @ dir)), w1)
            | (Inr entries, w1) \<Rightarrow>
                (case find_target p filename entries of
                   Inl e \<Rightarrow> (Inl e, w1)
                 | Inr None \<Rightarrow> (Inl (Errorf (''target file '' @ p @ '' does not exist'')), w1)
                 | Inr (Some targetEntry) \<Rightarrow> entry_Open dp targetEntry w1)))
      else
        (case os_OpenFile dp (path_Join (workspace fs) p) flag 420 w of
           (Inl err, w1) \<Rightarrow>
             (Inl (Errorv (''target file '' @ p @ '' does not exist: '') err), w1)
         | (Inr f, w1) \<Rightarrow> (Inr f, w1)))"

section \<open>filesystem/squashfs/squashfs.go: readBlock and readFragment\<close>

definition readBlock ::
  "'w FileSystem \<Rightarrow> int \<Rightarrow> bool \<Rightarrow> 32 word \<Rightarrow> 'w \<Rightarrow> (error + byte list) outcome \<times> 'w" where
  "readBlock fs location compressed sz w =
     (if sz = 0 then
        (case superblock fs of
           None \<Rightarrow> (Panics ''runtime error: invalid memory address or nil pointer dereference'', w)
         | Some sb \<Rightarrow> (Returns (Inr (replicate (unat (blocksize sb)) 0)), w))
      else
        (case ReadAt (backend fs) (unat sz) location w of
           ((b, err), w1) \<Rightarrow>
             (case not_EOF err of
                Some e \<Rightarrow>
                  (Returns (Inl (Errorv (''error reading block '' @ show_int location @ '': '') e)), w1)
              | None \<Rightarrow>
                  if int (length b) \<noteq> int (unat sz) then
                    (Returns (Inl (Errorf (''read '' @ show_nat (length b) @
                       '' bytes instead of expected '' @ show_nat (unat sz)))), w1)
                  else if compressed then
                    (case compressor fs of
                       None \<Rightarrow>
                         (Panics ''runtime error: invalid memory address or nil pointer dereference'', w1)
                     | Some c \<Rightarrow>
                         (case decompress c b w1 of
                            (Inl e, w2) \<Rightarrow> (Returns (Inl (Errorv ''decompress error: '' e)), w2)
                          | (Inr d, w2) \<Rightarrow> (Returns (Inr d), w2)))
                  else (Returns (Inr b), w1))))"

text \<open>
  Modelled from the spec: \<open>lru.get(pos, fetch)\<close>. A capacity of zero or less disables the
  cache: the loader runs and nothing is inserted (a nil cache, which \<open>readFragmentTable\<close>
  runs its readers with, is taken the same way). A hit moves the block to the front and
  skips the loader; a miss runs the loader once, inserts what it gives at the front and
  drops the least recently used block beyond the capacity; a failed loader inserts nothing.
\<close>

definition lru_get ::
  "lru option \<Rightarrow> int \<Rightarrow> ('w \<Rightarrow> (error + byte list \<times> 16 word) \<times> 'w) \<Rightarrow> 'w
     \<Rightarrow> (error + byte list \<times> 16 word) \<times> lru option \<times> 'w" where
  "lru_get c pos fetch w =
     (case c of
        None \<Rightarrow> (case fetch w of (r, w1) \<Rightarrow> (r, None, w1))
      | Some l \<Rightarrow>
          if maxBlocks l \<le> 0 then (case fetch w of (r, w1) \<Rightarrow> (r, Some l, w1))
          else
            (case find (\<lambda>b. fst b = pos) (blocks l) of
               Some (p, d, s) \<Rightarrow>
                 (Inr (d, s),
                  Some (l\<lparr>blocks := (p, d, s) # filter (\<lambda>b. fst b \<noteq> pos) (blocks l)\<rparr>), w)
             | None \<Rightarrow>
                 (case fetch w of
                    (Inl e, w1) \<Rightarrow> (Inl e, Some l, w1)
                  | (Inr (d, s), w1) \<Rightarrow>
                      (Inr (d, s),
                       Some (l\<lparr>blocks := take (nat (maxBlocks l)) ((pos, d, s) # blocks l)\<rparr>),
                       w1))))"

text \<open>
  The closure \<open>readFragment\<close> hands to the cache: read the fragment block from the backend
  and decompress it when the entry says so.
\<close>

definition fetch_fragment ::
  "'w FileSystem \<Rightarrow> 32 word \<Rightarrow> fragmentEntry \<Rightarrow> int \<Rightarrow> 'w
     \<Rightarrow> (error + byte list \<times> 16 word) \<times> 'w" where
  "fetch_fragment fs index fragmentInfo pos w =
     (case ReadAt (backend fs) (unat (fe_size fragmentInfo)) pos w of
        ((b, err), w1) \<Rightarrow>
          (case not_EOF err of
             Some e \<Rightarrow>
               (Inl (Errorv (''unable to read fragment block '' @ show_nat (unat index) @ '': '') e), w1)
           | None \<Rightarrow>
               if length b \<noteq> unat (fe_size fragmentInfo) then
                 (Inl (Errorf (''read '' @ show_nat (length b) @ '' instead of expected '' @
                    show_nat (unat (fe_size fragmentInfo)) @ '' bytes for fragment block '' @
                    show_nat (unat index))), w1)
               else if fe_compressed fragmentInfo then
                 (case compressor fs of
                    None \<Rightarrow>
                      (Inl (Errorf ''fragment compressed but do not have valid compressor''), w1)
                  | Some c \<Rightarrow>
                      (case decompress c b w1 of
                         (Inl e, w2) \<Rightarrow> (Inl (Errorv ''decompress error: '' e), w2)
                       | (Inr d, w2) \<Rightarrow> (Inr (d, 0), w2)))
               else (Inr (b, 0), w1)))"

text \<open>
  \<open>readFragment\<close> returns its result, the filesystem (whose cache it may have changed) and
  the world. The slice \<open>data[offset : int64(offset)+fragmentSize]\<close> panics when its bounds
  are out of order or beyond the data.
\<close>

definition readFragment ::
  "'w FileSystem \<Rightarrow> 32 word \<Rightarrow> 32 word \<Rightarrow> int \<Rightarrow> 'w
     \<Rightarrow> (error + byte list) outcome \<times> 'w FileSystem \<times> 'w" where
  "readFragment fs index offset fragmentSize w =
     (if int (length (fragments fs)) - 1 < int (unat index) then
        (Returns (Inl (Errorf (''cannot find fragment block with index '' @ show_nat (unat index)))),
         fs, w)
      else
        let fragmentInfo = fragments fs ! unat index;
            pos = sint (fe_start fragmentInfo)
        in
          (case lru_get (cache fs) pos (fetch_fragment fs index fragmentInfo pos) w of
             (Inl err, c, w1) \<Rightarrow> (Returns (Inl err), fs\<lparr>cache := c\<rparr>, w1)
           | (Inr (data, s), c, w1) \<Rightarrow>
               let lo = int (unat offset); hi = int (unat offset) + fragmentSize in
               if lo \<le> hi \<and> hi \<le> int (length data) then
                 (Returns (Inr (take (nat (hi - lo)) (drop (nat lo) data))), fs\<lparr>cache := c\<rparr>, w1)
               else
                 (Panics ''runtime error: slice bounds out of range'', fs\<lparr>cache := c\<rparr>, w1)))"

section \<open>filesystem/squashfs/squashfs.go: validateBlocksize, Create and Read\<close>

text \<open>
  \<open>validateBlocksize\<close> takes the base-2 logarithm of the block size as a \<open>float64\<close> and
  asks whether it is whole. The logarithm only decides in the third case of the switch,
  where the size lies between 4096 and 1048576: there the conversion to \<open>float64\<close> is
  exact, \<open>math.Log2\<close> gives the exact exponent of a power of two, and for any other
  integer of that range the fraction it adds is at least \<open>2^-20\<close> away from a whole
  number, far more than a rounding error. So the real logarithm stands for it.
\<close>

definition math_Trunc :: "real \<Rightarrow> real" where
  "math_Trunc r = (if r \<ge> 0 then of_int \<lfloor>r\<rfloor> else of_int \<lceil>r\<rceil>)"

definition validateBlocksize :: "int \<Rightarrow> error option" where
  "validateBlocksize bsz =
     (let blocksizeFloat = real_of_int bsz;
          l2 = log 2 blocksizeFloat
      in
        if bsz < minBlocksize then
          Some (Errorf (''blocksize '' @ show_int bsz @ '' too small, must be at least '' @
            show_int minBlocksize))
        else if bsz > maxBlocksize then
          Some (Errorf (''blocksize '' @ show_int bsz @ '' too large, must be no more than '' @
            show_int maxBlocksize))
        else if math_Trunc l2 \<noteq> l2 then
          Some (Errorf (''blocksize '' @ show_int bsz @ '' is not a power of 2''))
        else None)"

definition Create ::
  "'w deps \<Rightarrow> 'w Storage \<Rightarrow> int \<Rightarrow> int \<Rightarrow> int \<Rightarrow> 'w \<Rightarrow> (error + 'w FileSystem) \<times> 'w" where
  "Create dp b sz strt bsz w =
     (let bsz = (if bsz = 0 then defaultBlockSize else bsz) in
      case validateBlocksize bsz of
        Some err \<Rightarrow> (Inl err, w)
      | None \<Rightarrow>
          (case os_MkdirTemp dp [] ''diskfs_squashfs'' w of
             (Inl err, w1) \<Rightarrow> (Inl (Errorv ''could not create working directory: '' err), w1)
           | (Inr tmpdir, w1) \<Rightarrow>
               (Inr \<lparr>workspace = tmpdir, superblock = None, size = sz, start = strt,
                     backend = b, fs_blocksize = bsz, compressor = None, fragments = [],
                     uidsGids = [], xattrs = None, rootDir = None, cache = None\<rparr>, w1)))"

text \<open>
  \<open>Read\<close>, step by step. After the validation the argument \<open>blocksize\<close> is not used again:
  the filesystem takes its block size from the superblock. \<open>newLRU n\<close> is an empty cache of
  \<open>n\<close> slots; computing \<open>n\<close> divides by the superblock's block size, and a Go integer
  division by zero panics.
\<close>

definition newLRU :: "int \<Rightarrow> lru" where
  "newLRU n = \<lparr>maxBlocks = n, blocks = []\<rparr>"

definition load_xattrs ::
  "'w deps \<Rightarrow> superblock \<Rightarrow> 'w Storage \<Rightarrow> 'w Compressor option \<Rightarrow> 'w
     \<Rightarrow> (error + xAttrTable option) \<times> 'w" where
  "load_xattrs dp s b compress w =
     (if \<not> noXattrs s \<and> xattrTableStart s \<noteq> 0xffffffffffffffff then
        (case readXattrsTable dp s b compress w of
           (Inl err, w1) \<Rightarrow> (Inl (Errorv ''error reading xattr table: '' err), w1)
         | (Inr x, w1) \<Rightarrow> (Inr x, w1))
      else (Inr None, w))"

definition Read_tables ::
  "'w deps \<Rightarrow> 'w Storage \<Rightarrow> int \<Rightarrow> int \<Rightarrow> superblock \<Rightarrow> 'w Compressor option \<Rightarrow> 'w
     \<Rightarrow> (error + 'w FileSystem) outcome \<times> 'w" where
  "Read_tables dp b sz strt s compress w =
     (case readFragmentTable dp s b compress w of
        (Inl err, w1) \<Rightarrow> (Returns (Inl (Errorv ''error reading fragments: '' err)), w1)
      | (Inr frags, w1) \<Rightarrow>
          (case load_xattrs dp s b compress w1 of
             (Inl err, w2) \<Rightarrow> (Returns (Inl err), w2)
           | (Inr xa, w2) \<Rightarrow>
               (case readUidsGids dp s b compress w2 of
                  (Inl err, w3) \<Rightarrow> (Returns (Inl (Errorv ''error reading uids/gids: '' err)), w3)
                | (Inr uidsgids, w3) \<Rightarrow>
                    if blocksize s = 0 then
                      (Panics ''runtime error: integer divide by zero'', w3)
                    else
                      let fs = \<lparr>workspace = [], superblock = Some s, size = sz, start = strt,
                                backend = b, fs_blocksize = int (unat (blocksize s)),
                                compressor = compress, fragments = frags, uidsGids = uidsgids,
                                xattrs = xa, rootDir = None,
                                cache = Some (newLRU (defaultCacheSize div int (unat (blocksize s))))\<rparr>
                      in
                        (case getInode dp fs (fst (rootInode s)) (snd (rootInode s))
                                inodeBasicDirectory w3 of
                           (Inl err, w4) \<Rightarrow> (Returns (Inl (Errorf ''unable to read root inode'')), w4)
                         | (Inr rootI, w4) \<Rightarrow> (Returns (Inr (fs\<lparr>rootDir := Some rootI\<rparr>)), w4)))))"

definition Read ::
  "'w deps \<Rightarrow> 'w Storage \<Rightarrow> int \<Rightarrow> int \<Rightarrow> int \<Rightarrow> 'w
     \<Rightarrow> (error + 'w FileSystem) outcome \<times> 'w" where
  "Read dp b sz strt bsz w =
     (let bsz = (if bsz = 0 then defaultBlockSize else bsz) in
      case validateBlocksize bsz of
        Some err \<Rightarrow> (Returns (Inl err), w)
      | None \<Rightarrow>
          (case ReadAt b (superblockSize dp) strt w of
             ((superblockBytes, err), w1) \<Rightarrow>
               (case err of
                  Some e \<Rightarrow> (Returns (Inl (Errorv ''unable to read bytes for superblock: '' e)), w1)
                | None \<Rightarrow>
                    if length superblockBytes \<noteq> superblockSize dp then
                      (Returns (Inl (Errorf (''read '' @ show_nat (length superblockBytes) @
                         '' bytes instead of expected '' @ show_nat (superblockSize dp) @
                         '' for superblock''))), w1)
                    else
                      (case parseSuperblock dp superblockBytes of
                         Inl e \<Rightarrow> (Returns (Inl (Errorv ''error parsing superblock: '' e)), w1)
                       | Inr s \<Rightarrow>
                           (case newCompressor dp (compression s) of
                              Inl e \<Rightarrow>
                                (Returns (Inl (Errorv ''unable to create compressor: '' e)), w1)
                            | Inr compress \<Rightarrow> Read_tables dp b sz strt s compress w1)))))"

section \<open>partition/mbr: the partition entry, modelled from the spec\<close>

text \<open>
  Modelled from the spec: the struct \<open>Partition\<close> of package \<open>mbr\<close>, its codec
  \<open>partitionFromBytes\<close> and \<open>toBytes\<close>, and its method \<open>WriteContents\<close>. Their file is not
  among the sources; its test is, and gives the names of the fields and of the functions.
  The data model of the spec gives the fields: a bootable flag, a starting and an ending
  CHS triple (head, sector 1 to 63, cylinder 0 to 1023), a one-byte type code, a 32-bit
  first sector and a 32-bit count of sectors. A sector is held in six bits and a cylinder
  in ten, the widths the packing of the spec keeps. (The field \<open>Size\<close> of \<open>Disk\<close> is
  written \<open>Disk.Size\<close> from here on.)
\<close>

record mbr_Partition =
  Bootable :: bool
  StartHead :: byte
  StartSector :: "6 word"
  StartCylinder :: "10 word"
  Type :: byte
  EndHead :: byte
  EndSector :: "6 word"
  EndCylinder :: "10 word"
  Start :: "32 word"
  Size :: "32 word"

definition partitionEntrySize :: nat where "partitionEntrySize = 16"

text \<open>
  Modelled from the spec: a CHS triple is packed as the three bytes
  \<open>{head, (sector & 0x3F) | ((cylinder >> 2) & 0xC0), cylinder & 0xFF}\<close>, and unpacked by
  reading the same bits back.
\<close>

definition pack_chs :: "byte \<Rightarrow> 6 word \<Rightarrow> 10 word \<Rightarrow> byte list" where
  "pack_chs head sector cylinder =
     [head,
      (ucast sector AND 0x3F) OR (ucast (drop_bit 2 cylinder) AND 0xC0),
      ucast cylinder AND 0xFF]"

definition unpack_sector :: "byte \<Rightarrow> 6 word" where
  "unpack_sector b = ucast (b AND 0x3F)"

definition unpack_cylinder :: "byte \<Rightarrow> byte \<Rightarrow> 10 word" where
  "unpack_cylinder b2 b3 = push_bit 2 (ucast (b2 AND 0xC0)) OR ucast b3"

text \<open>A 32-bit value in little-endian byte order.\<close>

definition put_le32 :: "32 word \<Rightarrow> byte list" where
  "put_le32 v = [ucast v, ucast (drop_bit 8 v), ucast (drop_bit 16 v), ucast (drop_bit 24 v)]"

definition get_le32 :: "byte \<Rightarrow> byte \<Rightarrow> byte \<Rightarrow> byte \<Rightarrow> 32 word" where
  "get_le32 b0 b1 b2 b3 =
     ucast b0 OR push_bit 8 (ucast b1) OR push_bit 16 (ucast b2) OR push_bit 24 (ucast b3)"

text \<open>
  Modelled from the spec: the sixteen bytes of an entry, in the order of the data model:
  the bootable flag (\<open>0x80\<close> or \<open>0x00\<close>), the starting CHS, the type, the ending CHS, the
  first sector, the count of sectors.
\<close>

definition toBytes :: "mbr_Partition \<Rightarrow> byte list" where
  "toBytes p =
     [if Bootable p then 0x80 else 0x00]
     @ pack_chs (StartHead p) (StartSector p) (StartCylinder p)
     @ [Type p]
     @ pack_chs (EndHead p) (EndSector p) (EndCylinder p)
     @ put_le32 (Start p)
     @ put_le32 (Size p)"

text \<open>
  Modelled from the spec: decoding fails with \<open>InvalidEntry\<close> on a buffer that is not
  sixteen bytes long (the reason is the one the spec and the test give) and on a bootable
  byte other than \<open>0x00\<close> and \<open>0x80\<close> (the test asks for a reason that starts with
  \<open>invalid partition\<close>). The two sector sizes are kept for the I/O methods and are no part
  of the entry.
\<close>

definition partitionFromBytes :: "byte list \<Rightarrow> nat \<Rightarrow> nat \<Rightarrow> error + mbr_Partition" where
  "partitionFromBytes b logicalSectorSize physicalSectorSize =
     (if length b \<noteq> partitionEntrySize then
        Inl (InvalidEntry (''data for partition was '' @ show_nat (length b) @
          '' bytes instead of expected '' @ show_nat partitionEntrySize))
      else if b ! 0 \<noteq> 0x00 \<and> b ! 0 \<noteq> 0x80 then Inl (InvalidEntry ''invalid partition'')
      else
        Inr \<lparr>Bootable = (b ! 0 = 0x80),
             StartHead = b ! 1,
             StartSector = unpack_sector (b ! 2),
             StartCylinder = unpack_cylinder (b ! 2) (b ! 3),
             Type = b ! 4,
             EndHead = b ! 5,
             EndSector = unpack_sector (b ! 6),
             EndCylinder = unpack_cylinder (b ! 6) (b ! 7),
             Start = get_le32 (b ! 8) (b ! 9) (b ! 10) (b ! 11),
             Size = get_le32 (b ! 12) (b ! 13) (b ! 14) (b ! 15)\<rparr>)"






text \<open>
  The entry of the spec's first scenario, and one with values at the ends of their ranges.
\<close>

definition linux_partition :: mbr_Partition where
  "linux_partition =
     \<lparr>Bootable = False, StartHead = 0, StartSector = 2, StartCylinder = 0, Type = 0x83,
      EndHead = 0, EndSector = 2, EndCylinder = 0, Start = 2048, Size = 20480\<rparr>"

definition odd_partition :: mbr_Partition where
  "odd_partition =
     \<lparr>Bootable = True, StartHead = 255, StartSector = 0, StartCylinder = 1023, Type = 0,
      EndHead = 254, EndSector = 63, EndCylinder = 768, Start = 0xFFFFFFFF, Size = 0\<rparr>"

section \<open>A filesystem and an environment for the examples\<close>

text \<open>
  The world of the examples is a counter of the calls that did I/O. The backend holds
  zero bytes; removing the workspace fails, as on a directory that cannot be written.
\<close>

definition example_storage :: "nat Storage" where
  "example_storage = \<lparr>ReadAt = (\<lambda>n off w. ((replicate n 0, None), Suc w)), Writable = None\<rparr>"

definition example_deps :: "nat deps" where
  "example_deps =
     \<lparr>readDirectory = (\<lambda>fs dir w.
        (Inr [\<lparr>name = ''hello.txt'', isSubdirectory = False\<rparr>,
              \<lparr>name = ''sub'', isSubdirectory = True\<rparr>], Suc w)),
      entry_Open = (\<lambda>e w. (Inr (EntryFile (name e)), Suc w)),
      os_OpenFile = (\<lambda>p flag perm w. (Inr (OsFile p), Suc w)),
      os_RemoveAll = (\<lambda>p w. (Some (Errorf ''unlinkat: permission denied''), Suc w)),
      os_MkdirTemp = (\<lambda>dir pat w. (Inr ''/tmp/diskfs_squashfs1'', Suc w)),
      superblockSize = 96,
      parseSuperblock = (\<lambda>b. Inl (Errorf ''invalid magic'')),
      newCompressor = (\<lambda>c. Inr None),
      readFragmentTable = (\<lambda>s b c w. (Inr [], Suc w)),
      readXattrsTable = (\<lambda>s b c w. (Inr None, Suc w)),
      readUidsGids = (\<lambda>s b c w. (Inr [], Suc w)),
      getInode = (\<lambda>fs blk off t w. (Inl (Errorf ''no inode''), Suc w))\<rparr>"

definition example_fs :: "nat FileSystem" where
  "example_fs =
     \<lparr>workspace = [],
      superblock = Some \<lparr>blocksize = 4096, compression = 1, noXattrs = True,
                         xattrTableStart = 0xffffffffffffffff, rootInode = (0, 0)\<rparr>,
      size = 1048576, start = 0, backend = example_storage, fs_blocksize = 4096,
      compressor = None,
      fragments = [\<lparr>fe_start = 8192, fe_size = 16, fe_compressed = False\<rparr>],
      uidsGids = [0], xattrs = None, rootDir = None,
      cache = Some (newLRU 4)\<rparr>"

definition example_workspace_fs :: "nat FileSystem" where
  "example_workspace_fs = example_fs\<lparr>workspace := ''/tmp/diskfs_squashfs1'', superblock := None\<rparr>"

section \<open>Results for disk/disk.go\<close>

lemma show_nat_digit: "n < 10 \<Longrightarrow> show_nat n = [digit_char n]"
  by (simp add: show_nat.simps)

lemma show_int_minus_one: "show_int (- 1) = ''-1''"
  by (simp add: show_int_def show_nat_digit digit_char_def)

lemma slice_index_minus_one:
  "slice_index xs (- 1) = Panics ''runtime error: index out of range [-1]''"
  by (simp add: slice_index_def show_int_minus_one)

text \<open>
  The part of C2 that holds: an index below zero or above the number of partitions is
  answered with \<open>-1\<close> and an error, and the world is returned untouched.
\<close>

lemma ReadPartitionContents_outside:
  assumes "Table d = Some t" and "part < 0 \<or> part > int (length (GetPartitions t))"
  shows "\<exists>e. ReadPartitionContents d part w = (Returns (- 1, Some e), w)"
  using assms by (auto simp: ReadPartitionContents_def Let_def)

lemma WritePartitionContents_outside:
  assumes "Table d = Some t" and "part < 0 \<or> part > int (length (GetPartitions t))"
  shows "\<exists>e. WritePartitionContents d part w = (Returns (- 1, Some e), w)"
  using assms by (auto simp: WritePartitionContents_def Let_def split: option.splits)

text \<open>
  C2 at index 0. On a disk with a table, \<open>part = 0\<close> passes both checks (\<open>0 < 0\<close> is false
  and \<open>0 > len\<close> is false), so the code indexes \<open>partitions[-1]\<close>: the runtime panics, and
  no error is returned. This holds for every table, the empty one included.
\<close>

theorem PartitionContents_index_zero_panics:
  "ReadPartitionContents (d\<lparr>Table := Some t\<rparr>) 0 w =
     (Panics ''runtime error: index out of range [-1]'', w)
   \<and> WritePartitionContents (d\<lparr>Backend := (Backend d)\<lparr>Writable := None\<rparr>, Table := Some t\<rparr>) 0 w =
     (Panics ''runtime error: index out of range [-1]'', w)"
  by (simp add: ReadPartitionContents_def WritePartitionContents_def Let_def
      slice_index_minus_one)

theorem PartitionContents_index_zero_panics_witness:
  "ReadPartitionContents example_disk 0 0 =
     (Panics ''runtime error: index out of range [-1]'', 0)
   \<and> WritePartitionContents example_disk 0 0 =
     (Panics ''runtime error: index out of range [-1]'', 0)
   \<and> ReadPartitionContents example_disk 1 0 = (Returns (512, None), 1)"
  using PartitionContents_index_zero_panics
    [where d = example_disk and t = "\<lparr>GetPartitions = [example_partition]\<rparr>" and w = 0]
  by (simp add: example_disk_def example_partition_def ReadPartitionContents_def
      slice_index_def)

section \<open>Results for filesystem/squashfs/squashfs.go\<close>

subsection \<open>OpenFile with write intent on a filesystem without workspace\<close>

lemma path_of_root: "path_Dir ''/'' = ''/''" "path_Base ''/'' = ''/''"
  by (simp_all add: path_Dir_def path_Base_def path_Split_def path_Clean_def clean_loop.simps)

lemma path_of_hello: "path_Dir ''/hello.txt'' = ''/''" "path_Base ''/hello.txt'' = ''hello.txt''"
  by (simp_all add: path_Dir_def path_Base_def path_Split_def path_Clean_def clean_loop.simps)

text \<open>
  C3, as amended. On a filesystem with an empty workspace and for flags with a write
  intent, \<open>OpenFile\<close> returns the read-only error before the path is resolved, the world
  untouched, for every path whose \<open>path.Dir\<close> differs from its \<open>path.Base\<close>. For the other
  paths (\<open>/\<close> is one) the check that comes first answers: the error is
  \<open>cannot open directory p as file\<close>, again with the world untouched.
\<close>

theorem OpenFile_write_intent:
  assumes "workspace fs = []" and "writeMode flag"
  shows "(path_Dir p \<noteq> path_Base p \<longrightarrow>
            OpenFile dp fs p flag w = (Inl ErrReadonlyFilesystem, w))
       \<and> (path_Dir p = path_Base p \<longrightarrow>
            OpenFile dp fs p flag w =
              (Inl (Errorf (''cannot open directory '' @ p @ '' as file'')), w))"
  using assms by (simp add: OpenFile_def Let_def)

theorem OpenFile_write_intent_witness:
  "workspace example_fs = [] \<and> writeMode (O_WRONLY OR O_CREATE)
   \<and> path_Dir ''/hello.txt'' \<noteq> path_Base ''/hello.txt''
   \<and> OpenFile example_deps example_fs ''/hello.txt'' (O_WRONLY OR O_CREATE) 0 =
       (Inl ErrReadonlyFilesystem, 0)
   \<and> OpenFile example_deps example_fs ''/hello.txt'' O_RDONLY 0 =
       (Inr (EntryFile ''hello.txt''), 2)"
proof -
  have ws: "workspace example_fs = []"
    by (simp add: example_fs_def)
  have wm: "writeMode (O_WRONLY OR O_CREATE)"
    by (simp add: writeMode_def O_WRONLY_def O_CREATE_def O_RDWR_def O_APPEND_def
        O_TRUNC_def O_EXCL_def)
  have ne: "path_Dir ''/hello.txt'' \<noteq> path_Base ''/hello.txt''"
    by (simp add: path_of_hello)
  have rd: "\<not> writeMode O_RDONLY"
    by (simp add: writeMode_def O_RDONLY_def)
  have "OpenFile example_deps example_fs ''/hello.txt'' O_RDONLY 0 =
      (Inr (EntryFile ''hello.txt''), 2)"
    using rd ne ws by (simp add: OpenFile_def Let_def path_of_hello example_deps_def)
  with OpenFile_write_intent [OF ws wm, of "''/hello.txt''" example_deps 0] ws wm ne
  show ?thesis by simp
qed

text \<open>
  C3 as stated fails at the path \<open>/\<close>: opened for writing on a filesystem without
  workspace, it is refused as a directory, not as read-only.
\<close>

theorem OpenFile_root_counterexample:
  "workspace example_fs = [] \<and> writeMode O_WRONLY
   \<and> OpenFile example_deps example_fs ''/'' O_WRONLY 0 =
       (Inl (Errorf ''cannot open directory / as file''), 0)
   \<and> fst (OpenFile example_deps example_fs ''/'' O_WRONLY 0) \<noteq> Inl ErrReadonlyFilesystem"
  by (simp add: OpenFile_def Let_def path_of_root example_fs_def writeMode_def O_WRONLY_def)

subsection \<open>readBlock on a sparse block\<close>

lemma replicate_two: "replicate 2 x = [x, x]"
  by (simp add: numeral_2_eq_2)

text \<open>
  C7. For a block entry of size 0, \<open>readBlock\<close> returns as many zero bytes as the
  superblock's block size says, and the world is the one it was given: no read of the
  backend and no decompression took place.
\<close>

theorem readBlock_sparse:
  assumes "superblock fs = Some sb"
  shows "readBlock fs location compressed 0 w =
           (Returns (Inr (replicate (unat (blocksize sb)) 0)), w)"
  using assms by (simp add: readBlock_def)

theorem readBlock_sparse_witness:
  "superblock example_fs =
     Some \<lparr>blocksize = 4096, compression = 1, noXattrs = True,
           xattrTableStart = 0xffffffffffffffff, rootInode = (0, 0)\<rparr>
   \<and> readBlock example_fs 8192 True 0 0 = (Returns (Inr (replicate 4096 0)), 0)
   \<and> readBlock example_fs 8192 False 2 0 = (Returns (Inr [0, 0]), 1)"
proof -
  have sb: "superblock example_fs =
     Some \<lparr>blocksize = 4096, compression = 1, noXattrs = True,
           xattrTableStart = 0xffffffffffffffff, rootInode = (0, 0)\<rparr>"
    by (simp add: example_fs_def)
  have "readBlock example_fs 8192 False 2 0 = (Returns (Inr [0, 0]), 1)"
    by (simp add: readBlock_def example_fs_def example_storage_def not_EOF_def replicate_two)
  with readBlock_sparse [OF sb, of 8192 True 0] sb show ?thesis by simp
qed

subsection \<open>readFragment with an index beyond the fragment table\<close>

text \<open>
  C8. For an index at or beyond the number of loaded fragment entries, \<open>readFragment\<close>
  returns an error; the filesystem, its cache with it, and the world are the ones it was
  given: nothing was read and nothing was inserted.
\<close>

theorem readFragment_index_beyond_table:
  assumes "length (fragments fs) \<le> unat index"
  shows "readFragment fs index offset fragmentSize w =
           (Returns (Inl (Errorf (''cannot find fragment block with index '' @
              show_nat (unat index)))), fs, w)"
proof -
  from assms have "int (length (fragments fs)) - 1 < int (unat index)"
    by linarith
  then show ?thesis
    by (simp add: readFragment_def)
qed

theorem readFragment_index_beyond_table_witness:
  "length (fragments example_fs) \<le> unat (1 :: 32 word)
   \<and> readFragment example_fs 1 0 16 0 =
       (Returns (Inl (Errorf ''cannot find fragment block with index 1'')), example_fs, 0)
   \<and> fst (readFragment example_fs 0 0 16 0) = Returns (Inr (replicate 16 0))
   \<and> snd (snd (readFragment example_fs 0 0 16 0)) = 1"
proof -
  have len: "length (fragments example_fs) \<le> unat (1 :: 32 word)"
    by (simp add: example_fs_def)
  have ok: "readFragment example_fs 0 0 16 0 =
      (Returns (Inr (replicate 16 0)),
       example_fs\<lparr>cache := Some \<lparr>maxBlocks = 4, blocks = [(8192, replicate 16 0, 0)]\<rparr>\<rparr>, 1)"
    by (simp add: readFragment_def example_fs_def lru_get_def fetch_fragment_def newLRU_def
        example_storage_def not_EOF_def Let_def)
  from readFragment_index_beyond_table [OF len, of 0 16 0] len ok
  show ?thesis by (simp add: show_nat.simps digit_char_def)
qed

subsection \<open>Close\<close>

text \<open>
  C9, as amended. With a workspace, \<open>Close\<close> returns what removing the workspace
  directory returns: nil when the removal succeeds, the removal's own error when it fails.
\<close>

theorem Close_returns_removal:
  assumes "workspace fs \<noteq> []"
  shows "Close dp fs w = os_RemoveAll dp (workspace fs) w"
  using assms by (simp add: Close_def)

theorem Close_returns_removal_witness:
  "workspace example_workspace_fs \<noteq> []
   \<and> Close example_deps example_workspace_fs 0 =
       os_RemoveAll example_deps (workspace example_workspace_fs) 0"
proof -
  have ws: "workspace example_workspace_fs \<noteq> []"
    by (simp add: example_workspace_fs_def)
  from Close_returns_removal [OF ws, of example_deps 0] ws show ?thesis by simp
qed

text \<open>
  C9 as stated fails where the removal fails: \<open>Close\<close> returns the failure of the removal.
\<close>

theorem Close_counterexample:
  "workspace example_workspace_fs \<noteq> []
   \<and> os_RemoveAll example_deps (workspace example_workspace_fs) 0 =
       (Some (Errorf ''unlinkat: permission denied''), 1)
   \<and> Close example_deps example_workspace_fs 0 =
       (Some (Errorf ''unlinkat: permission denied''), 1)
   \<and> fst (Close example_deps example_workspace_fs 0) \<noteq> None"
  by (simp add: Close_def example_workspace_fs_def example_deps_def)

subsection \<open>validateBlocksize, Create and Read\<close>

text \<open>
  The logarithm of a positive integer is whole exactly for the powers of two, so the
  block sizes that pass are the nine powers of two from \<open>2^12\<close> to \<open>2^20\<close>.
\<close>

lemma Log2_whole_iff:
  assumes "1 \<le> n"
  shows "math_Trunc (log 2 (real_of_int n)) = log 2 (real_of_int n) \<longleftrightarrow> (\<exists>k::nat. n = 2 ^ k)"
proof
  define l where "l = log 2 (real_of_int n)"
  assume "math_Trunc (log 2 (real_of_int n)) = log 2 (real_of_int n)"
  then have whole: "math_Trunc l = l" by (simp only: l_def)
  from assms have pos: "0 < real_of_int n" by simp
  from assms have nonneg: "0 \<le> l" by (simp add: l_def)
  then have "math_Trunc l = of_int \<lfloor>l\<rfloor>" by (simp only: math_Trunc_def if_True)
  with whole have eq: "l = of_int \<lfloor>l\<rfloor>" by (simp only:)
  define m where "m = nat \<lfloor>l\<rfloor>"
  have "0 \<le> \<lfloor>l\<rfloor>" using nonneg by simp
  then have "of_int \<lfloor>l\<rfloor> = real m" by (simp add: m_def)
  with eq have lm: "l = real m" by (simp only:)
  have "real_of_int n = 2 powr l" using pos by (simp add: l_def)
  also have "\<dots> = 2 ^ m" by (simp add: lm powr_realpow)
  finally have "real_of_int n = real_of_int (2 ^ m)" by simp
  then have "n = 2 ^ m" by (simp only: of_int_eq_iff)
  then show "\<exists>k::nat. n = 2 ^ k" ..
next
  assume "\<exists>k::nat. n = 2 ^ k"
  then obtain k :: nat where "n = 2 ^ k" ..
  then have "log 2 (real_of_int n) = real k" by simp
  then show "math_Trunc (log 2 (real_of_int n)) = log 2 (real_of_int n)"
    by (simp add: math_Trunc_def)
qed

lemma pow2_in_range:
  fixes k :: nat
  assumes "(4096::int) \<le> 2 ^ k" and "(2::int) ^ k \<le> 1048576"
  shows "k \<in> {12..20}"
proof -
  have "(2::int) ^ 12 \<le> 2 ^ k" using assms(1) by simp
  then have "12 \<le> k" by (simp only: power_increasing_iff one_less_numeral_iff semiring_norm)
  have "(2::int) ^ k \<le> 2 ^ 20" using assms(2) by simp
  then have "k \<le> 20" by (simp only: power_increasing_iff one_less_numeral_iff semiring_norm)
  with \<open>12 \<le> k\<close> show ?thesis by simp
qed

lemma validateBlocksize_None_iff:
  "validateBlocksize bsz = None \<longleftrightarrow> (4096 \<le> bsz \<and> bsz \<le> 1048576 \<and> (\<exists>k::nat. bsz = 2 ^ k))"
proof (cases "4096 \<le> bsz \<and> bsz \<le> 1048576")
  case True
  then have "1 \<le> bsz" by simp
  from Log2_whole_iff [OF this] True show ?thesis
    by (simp add: validateBlocksize_def minBlocksize_def maxBlocksize_def KB_def MB_def Let_def)
next
  case False
  then show ?thesis
    by (auto simp: validateBlocksize_def minBlocksize_def maxBlocksize_def KB_def MB_def Let_def)
qed

lemma validateBlocksize_allowed:
  "validateBlocksize bsz = None \<longleftrightarrow>
     bsz \<in> {4096, 8192, 16384, 32768, 65536, 131072, 262144, 524288, 1048576}"
proof
  assume "validateBlocksize bsz = None"
  then obtain k :: nat where r: "4096 \<le> bsz" "bsz \<le> 1048576" and k: "bsz = 2 ^ k"
    by (auto simp: validateBlocksize_None_iff)
  from r k have "k \<in> {12..20}" by (intro pow2_in_range) simp_all
  then have "k \<in> {12, 13, 14, 15, 16, 17, 18, 19, 20}" by auto
  with k show "bsz \<in> {4096, 8192, 16384, 32768, 65536, 131072, 262144, 524288, 1048576}"
    by auto
next
  assume a: "bsz \<in> {4096, 8192, 16384, 32768, 65536, 131072, 262144, 524288, 1048576}"
  then have "bsz \<in> (\<lambda>k::nat. 2 ^ k) ` {12, 13, 14, 15, 16, 17, 18, 19, 20}" by auto
  then have "\<exists>k::nat. bsz = 2 ^ k" by blast
  with a show "validateBlocksize bsz = None"
    by (auto simp: validateBlocksize_None_iff)
qed

lemma show_int_examples:
  "show_int 3000 = ''3000''" "show_int 4096 = ''4096''" "show_int 5000 = ''5000''"
  by (simp_all add: show_int_def show_nat.simps digit_char_def)

lemma validateBlocksize_3000:
  "validateBlocksize 3000 = Some (Errorf ''blocksize 3000 too small, must be at least 4096'')"
  by (simp add: validateBlocksize_def minBlocksize_def KB_def Let_def show_int_examples)

lemma validateBlocksize_5000:
  "validateBlocksize 5000 = Some (Errorf ''blocksize 5000 is not a power of 2'')"
proof -
  have "validateBlocksize 5000 \<noteq> None" by (simp add: validateBlocksize_allowed)
  then have "math_Trunc (log 2 (real_of_int 5000)) \<noteq> log 2 (real_of_int 5000)"
    by (simp add: validateBlocksize_def minBlocksize_def maxBlocksize_def KB_def MB_def Let_def
        split: if_splits)
  then show ?thesis
    by (simp add: validateBlocksize_def minBlocksize_def maxBlocksize_def KB_def MB_def Let_def
        show_int_examples)
qed

text \<open>
  C6, as amended. \<open>Create\<close> and \<open>Read\<close> fail, before any I/O, for every block size other
  than 0 that is not a power of two or lies outside 4096..1048576. For the argument 0 they
  go on with the default of 128 KiB, which passes the validation: the two calls are the
  calls with 131072, and \<open>Create\<close> gives a filesystem of that block size as soon as the
  working directory can be made. The block size 3000 is rejected as too small (the range
  is checked first); 5000, inside the range, is rejected as not a power of two.
\<close>

theorem blocksize_validation:
  "(bsz \<noteq> 0 \<and> (bsz < 4096 \<or> bsz > 1048576 \<or> \<not> (\<exists>k::nat. bsz = 2 ^ k)) \<longrightarrow>
      (\<exists>e. Create dp b sz strt bsz w = (Inl e, w) \<and> Read dp b sz strt bsz w = (Returns (Inl e), w)))
   \<and> validateBlocksize defaultBlockSize = None \<and> defaultBlockSize = 131072
   \<and> Create dp b sz strt 0 w = Create dp b sz strt defaultBlockSize w
   \<and> Read dp b sz strt 0 w = Read dp b sz strt defaultBlockSize w
   \<and> (\<forall>tmpdir w1. os_MkdirTemp dp [] ''diskfs_squashfs'' w = (Inr tmpdir, w1) \<longrightarrow>
        (\<exists>fs. Create dp b sz strt 0 w = (Inr fs, w1) \<and> fs_blocksize fs = 131072
              \<and> workspace fs = tmpdir))
   \<and> validateBlocksize 3000 = Some (Errorf ''blocksize 3000 too small, must be at least 4096'')
   \<and> validateBlocksize 5000 = Some (Errorf ''blocksize 5000 is not a power of 2'')"
proof -
  have d: "defaultBlockSize = 131072" by (simp add: defaultBlockSize_def KB_def)
  have v: "validateBlocksize defaultBlockSize = None"
    by (simp add: d validateBlocksize_allowed)
  have fail: "\<exists>e. Create dp b sz strt bsz w = (Inl e, w) \<and> Read dp b sz strt bsz w = (Returns (Inl e), w)"
    if "bsz \<noteq> 0" and "bsz < 4096 \<or> bsz > 1048576 \<or> \<not> (\<exists>k::nat. bsz = 2 ^ k)"
  proof -
    from that(2) have "validateBlocksize bsz \<noteq> None"
      by (auto simp: validateBlocksize_None_iff)
    then obtain e where "validateBlocksize bsz = Some e" by auto
    with that(1) show ?thesis by (simp add: Create_def Read_def)
  qed
  have c0: "Create dp b sz strt 0 w = Create dp b sz strt defaultBlockSize w"
    by (simp add: Create_def d)
  have r0: "Read dp b sz strt 0 w = Read dp b sz strt defaultBlockSize w"
    by (simp add: Read_def d)
  have mk: "\<exists>fs. Create dp b sz strt 0 w = (Inr fs, w1) \<and> fs_blocksize fs = 131072 \<and> workspace fs = tmpdir"
    if "os_MkdirTemp dp [] ''diskfs_squashfs'' w = (Inr tmpdir, w1)" for tmpdir w1
    using that v by (simp add: Create_def d)
  from d v fail c0 r0 mk validateBlocksize_3000 validateBlocksize_5000 show ?thesis
    by blast
qed

theorem blocksize_validation_witness:
  "Create example_deps example_storage 1048576 0 5000 0 =
     (Inl (Errorf ''blocksize 5000 is not a power of 2''), 0)
   \<and> Read example_deps example_storage 1048576 0 5000 0 =
     (Returns (Inl (Errorf ''blocksize 5000 is not a power of 2'')), 0)
   \<and> fst (Create example_deps example_storage 1048576 0 0 0) =
       Inr \<lparr>workspace = ''/tmp/diskfs_squashfs1'', superblock = None, size = 1048576, start = 0,
            backend = example_storage, fs_blocksize = 131072, compressor = None, fragments = [],
            uidsGids = [], xattrs = None, rootDir = None, cache = None\<rparr>"
proof -
  have np: "\<not> (\<exists>k::nat. (5000::int) = 2 ^ k)"
    using validateBlocksize_5000 validateBlocksize_None_iff [of 5000] by simp
  have v: "validateBlocksize 5000 = Some (Errorf ''blocksize 5000 is not a power of 2'')"
    by (rule validateBlocksize_5000)
  have mk: "os_MkdirTemp example_deps [] ''diskfs_squashfs'' 0 = (Inr ''/tmp/diskfs_squashfs1'', 1)"
    by (simp add: example_deps_def)
  note t = blocksize_validation [of 5000 example_deps example_storage 1048576 0 0]
  from t np have "\<exists>e. Create example_deps example_storage 1048576 0 5000 0 = (Inl e, 0)
      \<and> Read example_deps example_storage 1048576 0 5000 0 = (Returns (Inl e), 0)"
    by simp
  moreover have "Create example_deps example_storage 1048576 0 5000 0 =
     (Inl (Errorf ''blocksize 5000 is not a power of 2''), 0)"
    using v by (simp add: Create_def)
  moreover from t mk have "\<exists>fs. Create example_deps example_storage 1048576 0 0 0 = (Inr fs, 1)
      \<and> fs_blocksize fs = 131072 \<and> workspace fs = ''/tmp/diskfs_squashfs1''"
    by blast
  moreover have "Create example_deps example_storage 1048576 0 0 0 =
       (Inr \<lparr>workspace = ''/tmp/diskfs_squashfs1'', superblock = None, size = 1048576, start = 0,
            backend = example_storage, fs_blocksize = 131072, compressor = None, fragments = [],
            uidsGids = [], xattrs = None, rootDir = None, cache = None\<rparr>, 1)"
    using t mk by (simp add: Create_def)
  ultimately show ?thesis by auto
qed

text \<open>
  C6 as stated fails in its example: 3000 is not rejected as "not a power of two" but as
  too small.
\<close>

theorem blocksize_3000_counterexample:
  "validateBlocksize 3000 = Some (Errorf ''blocksize 3000 too small, must be at least 4096'')
   \<and> validateBlocksize 3000 \<noteq> Some (Errorf ''blocksize 3000 is not a power of 2'')"
  by (simp add: validateBlocksize_3000)

section \<open>Results for partition/mbr\<close>

lemma byte_masks:
  "(0x3F :: byte) = mask 6" "(0xC0 :: byte) = push_bit 6 (mask 2)" "(0xFF :: byte) = mask 8"
  by (simp_all add: mask_eq_exp_minus_1)

lemma le32_roundtrip:
  "get_le32 (ucast v) (ucast (drop_bit 8 v)) (ucast (drop_bit 16 v)) (ucast (drop_bit 24 v)) = v"
  unfolding get_le32_def
  apply (rule bit_word_eqI)
  subgoal for n
    by (cases "n < 8"; cases "n < 16"; cases "n < 24") (auto simp: bit_simps)
  done

lemma sector_roundtrip:
  "unpack_sector ((ucast s AND 0x3F) OR (ucast (drop_bit 2 c) AND 0xC0)) = s"
  for s :: "6 word" and c :: "10 word"
  unfolding unpack_sector_def byte_masks
  by (rule bit_word_eqI) (auto simp: bit_simps)

lemma cylinder_roundtrip:
  "unpack_cylinder ((ucast s AND 0x3F) OR (ucast (drop_bit 2 c) AND 0xC0)) (ucast c AND 0xFF) = c"
  for s :: "6 word" and c :: "10 word"
  unfolding unpack_cylinder_def byte_masks
  apply (rule bit_word_eqI)
  subgoal for n
    by (cases "n < 8"; cases "n = 8"; cases "n = 9") (auto simp: bit_simps)
  done

lemma chs_bytes_roundtrip:
  "pack_chs h (unpack_sector b2) (unpack_cylinder b2 b3) = [h, b2, b3]"
  unfolding pack_chs_def unpack_sector_def unpack_cylinder_def byte_masks
  apply simp
  apply (rule conjI)
   apply (rule bit_word_eqI)
  subgoal for n
    by (cases "n < 6") (auto simp: bit_simps dest: bit_imp_le_length)
  apply (rule bit_word_eqI)
  subgoal for n
    by (auto simp: bit_simps dest: bit_imp_le_length)
  done

lemma show_nat_16: "show_nat 16 = ''16''"
  by (simp add: show_nat.simps digit_char_def)

text \<open>
  C1. Decoding the sixteen bytes of any entry gives the entry back, with its CHS fields as
  the caller gave them; and any three bytes unpack to a CHS triple that packs to the same
  three bytes.
\<close>

theorem mbr_decode_encode:
  "partitionFromBytes (toBytes p) lss pss = Inr p
   \<and> pack_chs h (unpack_sector b2) (unpack_cylinder b2 b3) = [h, b2, b3]"
  by (simp add: partitionFromBytes_def toBytes_def partitionEntrySize_def pack_chs_def
      put_le32_def le32_roundtrip sector_roundtrip cylinder_roundtrip
      chs_bytes_roundtrip [unfolded pack_chs_def])

lemma toBytes_linux:
  "toBytes linux_partition = [0, 0, 2, 0, 0x83, 0, 2, 0, 0, 8, 0, 0, 0, 0x50, 0, 0]"
  by (simp add: toBytes_def linux_partition_def pack_chs_def put_le32_def)

lemma toBytes_odd:
  "toBytes odd_partition =
     [0x80, 255, 0xC0, 0xFF, 0, 254, 0xFF, 0, 0xFF, 0xFF, 0xFF, 0xFF, 0, 0, 0, 0]"
  by (simp add: toBytes_def odd_partition_def pack_chs_def put_le32_def)

theorem mbr_decode_encode_witness:
  "partitionFromBytes [0, 0, 2, 0, 0x83, 0, 2, 0, 0, 8, 0, 0, 0, 0x50, 0, 0] 512 512 = Inr linux_partition
   \<and> partitionFromBytes
        [0x80, 255, 0xC0, 0xFF, 0, 254, 0xFF, 0, 0xFF, 0xFF, 0xFF, 0xFF, 0, 0, 0, 0] 512 512 =
      Inr odd_partition
   \<and> pack_chs 255 (unpack_sector 0xFF) (unpack_cylinder 0xFF 0xFF) = [255, 0xFF, 0xFF]"
  using mbr_decode_encode [of linux_partition 512 512 255 "0xFF" "0xFF"]
    mbr_decode_encode [of odd_partition 512 512 255 "0xFF" "0xFF"]
  by (simp add: toBytes_linux toBytes_odd)

text \<open>
  C5. \<open>partitionFromBytes\<close> fails exactly on an invalid input: on a length other than 16
  with the reason that names the length, on sixteen bytes whose bootable byte is neither
  \<open>0x00\<close> nor \<open>0x80\<close> with the reason \<open>invalid partition\<close>; sixteen bytes with a valid
  bootable byte decode.
\<close>

theorem partitionFromBytes_fails_iff_invalid:
  "(length b \<noteq> 16 \<longrightarrow>
      partitionFromBytes b lss pss =
        Inl (InvalidEntry (''data for partition was '' @ show_nat (length b) @
          '' bytes instead of expected 16'')))
   \<and> (length b = 16 \<and> b ! 0 \<noteq> 0x00 \<and> b ! 0 \<noteq> 0x80 \<longrightarrow>
      partitionFromBytes b lss pss = Inl (InvalidEntry ''invalid partition''))
   \<and> (length b = 16 \<and> (b ! 0 = 0x00 \<or> b ! 0 = 0x80) \<longrightarrow>
      (\<exists>p. partitionFromBytes b lss pss = Inr p))
   \<and> ((\<exists>e. partitionFromBytes b lss pss = Inl e) \<longleftrightarrow>
        (length b \<noteq> 16 \<or> (b ! 0 \<noteq> 0x00 \<and> b ! 0 \<noteq> 0x80)))"
  by (auto simp: partitionFromBytes_def show_nat_16 partitionEntrySize_def)

lemma show_nat_15_17: "show_nat 15 = ''15''" "show_nat 17 = ''17''"
  by (simp_all add: show_nat.simps digit_char_def)

theorem partitionFromBytes_fails_iff_invalid_witness:
  "partitionFromBytes (replicate 15 0) 512 512 =
     Inl (InvalidEntry ''data for partition was 15 bytes instead of expected 16'')
   \<and> partitionFromBytes (replicate 17 0) 512 512 =
     Inl (InvalidEntry ''data for partition was 17 bytes instead of expected 16'')
   \<and> partitionFromBytes (0x67 # replicate 15 0) 512 512 = Inl (InvalidEntry ''invalid partition'')
   \<and> partitionFromBytes [0, 0x20, 0x21, 0, 0x83, 0x31, 0x18, 0, 0, 8, 0, 0, 0, 0x50, 0, 0] 512 512 =
     Inr \<lparr>Bootable = False, StartHead = 0x20, StartSector = 0x21, StartCylinder = 0, Type = 0x83,
          EndHead = 0x31, EndSector = 0x18, EndCylinder = 0, Start = 2048, Size = 20480\<rparr>"
proof -
  have a: "partitionFromBytes (replicate 15 0) 512 512 =
     Inl (InvalidEntry ''data for partition was 15 bytes instead of expected 16'')"
    using partitionFromBytes_fails_iff_invalid [of "replicate 15 0" 512 512]
    by (simp add: show_nat_15_17)
  have b: "partitionFromBytes (replicate 17 0) 512 512 =
     Inl (InvalidEntry ''data for partition was 17 bytes instead of expected 16'')"
    using partitionFromBytes_fails_iff_invalid [of "replicate 17 0" 512 512]
    by (simp add: show_nat_15_17)
  have c: "partitionFromBytes (0x67 # replicate 15 0) 512 512 = Inl (InvalidEntry ''invalid partition'')"
    using partitionFromBytes_fails_iff_invalid [of "0x67 # replicate 15 0" 512 512]
    by simp
  have d: "partitionFromBytes [0, 0x20, 0x21, 0, 0x83, 0x31, 0x18, 0, 0, 8, 0, 0, 0, 0x50, 0, 0] 512 512 =
     Inr \<lparr>Bootable = False, StartHead = 0x20, StartSector = 0x21, StartCylinder = 0, Type = 0x83,
          EndHead = 0x31, EndSector = 0x18, EndCylinder = 0, Start = 2048, Size = 20480\<rparr>"
    by (simp add: partitionFromBytes_def partitionEntrySize_def unpack_sector_def
        unpack_cylinder_def get_le32_def)
  from a b c d show ?thesis by simp
qed

subsection \<open>WriteContents with more bytes than the partition holds\<close>





section \<open>Results for filesystem/ext4/cmp.go\<close>

lemma isNaN_simps [simp]: "isNaN NaN" "\<not> isNaN (Val a)"
  by (simp_all add: isNaN_def)

text \<open>
  C10. For every pair \<open>x\<close>, \<open>y\<close> of an ordered type, \<open>Compare x y\<close> is \<open>-1\<close> exactly when
  \<open>Less x y\<close>, \<open>+1\<close> exactly when \<open>Less y x\<close>, and \<open>0\<close> exactly when neither holds; two NaNs
  compare equal, a NaN is less than every non-NaN, and \<open>Compare x y = - Compare y x\<close>.
\<close>

theorem Compare_agrees_with_Less:
  fixes x y :: "'a::linorder ordered" and a :: 'a
  shows "(Compare x y = - 1 \<longleftrightarrow> Less x y)
       \<and> (Compare x y = 1 \<longleftrightarrow> Less y x)
       \<and> (Compare x y = 0 \<longleftrightarrow> (\<not> Less x y \<and> \<not> Less y x))
       \<and> Compare (NaN :: 'a ordered) NaN = 0
       \<and> Less NaN (Val a) \<and> Compare NaN (Val a) = - 1
       \<and> Compare x y = - Compare y x"
  by (cases x; cases y) (auto simp: Compare_def Less_def)

theorem Compare_agrees_with_Less_witness:
  "Compare (Val (3::int)) (Val 5) = - 1 \<and> Less (Val (3::int)) (Val 5)
   \<and> Compare (Val (5::int)) (Val 3) = 1 \<and> Compare (NaN :: int ordered) NaN = 0
   \<and> Compare (NaN :: int ordered) (Val 7) = - 1"
  using Compare_agrees_with_Less [of "Val (3::int)" "Val 5" 7]
  by (simp add: Compare_def Less_def)

end
